theory Spec2Isabelle
  imports Main "HOL-Library.Sublist" "HOL-Library.AList"
begin

section \<open>JavaScript values\<close>

text \<open>
  The secrets manifest is read with \<^verbatim>\<open>yaml.load(content) as any\<close>, so the parser works on
  untyped values and inspects their shape itself (\<^verbatim>\<open>typeof\<close>, truthiness, \<^verbatim>\<open>Array.isArray\<close>).
  The values are modelled by the JSON-like core of what a YAML document loads to.  A number
  is represented by its decimal rendering (what \<^verbatim>\<open>String(n)\<close> gives): the program never
  computes with the numbers of a manifest, it only tests them for truthiness and uses them
  as property keys.  Objects are association lists of their own properties, in order.
\<close>

datatype jsval =
    JUndefined
  | JNull
  | JBool bool
  | JNum string
  | JStr string
  | JArr "jsval list"
  | JObj "(string \<times> jsval) list"

text \<open>What the source throws: \<^verbatim>\<open>new Error(message)\<close>, a \<^verbatim>\<open>TypeError\<close> raised by the
  engine, and the parser's \<^verbatim>\<open>Error(`Invalid secret definition: ${JSON.stringify(item)}`)\<close>,
  which is kept with the item it names instead of the item's JSON text.\<close>

datatype exn =
    Error string
  | TypeError string
  | InvalidSecretDefinition jsval

fun truthy :: "jsval \<Rightarrow> bool" where
  "truthy JUndefined = False"
| "truthy JNull = False"
| "truthy (JBool b) = b"
| "truthy (JNum n) = (n \<noteq> ''0'' \<and> n \<noteq> ''NaN'')"
| "truthy (JStr s) = (s \<noteq> [])"
| "truthy (JArr xs) = True"
| "truthy (JObj kvs) = True"

fun typeof :: "jsval \<Rightarrow> string" where
  "typeof JUndefined = ''undefined''"
| "typeof JNull = ''object''"
| "typeof (JBool b) = ''boolean''"
| "typeof (JNum n) = ''number''"
| "typeof (JStr s) = ''string''"
| "typeof (JArr xs) = ''object''"
| "typeof (JObj kvs) = ''object''"

fun isArray :: "jsval \<Rightarrow> bool" where
  "isArray (JArr xs) = True"
| "isArray v = False"

text \<open>\<^verbatim>\<open>a || b\<close> and \<^verbatim>\<open>a ?? b\<close>.\<close>

definition js_or :: "jsval \<Rightarrow> jsval \<Rightarrow> jsval" where
  "js_or a b = (if truthy a then a else b)"

definition nullish :: "jsval \<Rightarrow> bool" where
  "nullish v = (v = JUndefined \<or> v = JNull)"

definition js_coalesce :: "jsval \<Rightarrow> jsval \<Rightarrow> jsval" where
  "js_coalesce a b = (if nullish a then b else a)"

text \<open>Reading the property \<open>k\<close> of a value that is neither \<^verbatim>\<open>null\<close> nor \<^verbatim>\<open>undefined\<close>:
  an own property of an object, \<^verbatim>\<open>undefined\<close> otherwise (none of the property names the
  program reads exists on a string, a number, a boolean or an array).\<close>

fun get :: "jsval \<Rightarrow> string \<Rightarrow> jsval" where
  "get (JObj kvs) k = (case map_of kvs k of Some v \<Rightarrow> v | None \<Rightarrow> JUndefined)"
| "get v k = JUndefined"

text \<open>Reading a property of any value: on \<^verbatim>\<open>null\<close> and \<^verbatim>\<open>undefined\<close> the engine throws.\<close>

definition read_prop :: "jsval \<Rightarrow> string \<Rightarrow> exn + jsval" where
  "read_prop v k = (if nullish v then Inl (TypeError (''cannot read property '' @ k @ '' of null or undefined''))
               else Inr (get v k))"

subsection \<open>Strings\<close>

text \<open>\<^verbatim>\<open>toUpperCase\<close> and \<^verbatim>\<open>toLowerCase\<close> on the ASCII letters.\<close>

definition upper_char :: "char \<Rightarrow> char" where
  "upper_char c = (let n = (of_char c :: nat) in if 97 \<le> n \<and> n \<le> 122 then char_of (n - 32) else c)"

definition lower_char :: "char \<Rightarrow> char" where
  "lower_char c = (let n = (of_char c :: nat) in if 65 \<le> n \<and> n \<le> 90 then char_of (n + 32) else c)"

definition toUpperCase :: "string \<Rightarrow> string" where
  "toUpperCase s = map upper_char s"

definition toLowerCase :: "string \<Rightarrow> string" where
  "toLowerCase s = map lower_char s"

text \<open>\<^verbatim>\<open>v.toLowerCase()\<close> on an untyped value: only a string has the method.\<close>

fun call_toLowerCase :: "jsval \<Rightarrow> exn + jsval" where
  "call_toLowerCase (JStr s) = Inr (JStr (toLowerCase s))"
| "call_toLowerCase v = Inl (TypeError ''toLowerCase is not a function'')"

text \<open>\<^verbatim>\<open>s.split('/')\<close>: always at least one part.\<close>

fun split_on :: "char \<Rightarrow> string \<Rightarrow> string list" where
  "split_on c [] = [[]]"
| "split_on c (x # xs) =
     (if x = c then [] # split_on c xs
      else (case split_on c xs of p # ps \<Rightarrow> (x # p) # ps | [] \<Rightarrow> [[x]]))"

text \<open>\<^verbatim>\<open>parts.join('/')\<close>.\<close>

fun join :: "string \<Rightarrow> string list \<Rightarrow> string" where
  "join sep [] = []"
| "join sep [p] = p"
| "join sep (p # q # ps) = p @ sep @ join sep (q # ps)"

text \<open>\<^verbatim>\<open>xs.map(f)\<close> with a callback that may throw: the first exception ends the call.\<close>

fun mapE :: "('a \<Rightarrow> exn + 'b) \<Rightarrow> 'a list \<Rightarrow> exn + 'b list" where
  "mapE f [] = Inr []"
| "mapE f (x # xs) =
     (case f x of Inl e \<Rightarrow> Inl e
      | Inr y \<Rightarrow> (case mapE f xs of Inl e \<Rightarrow> Inl e | Inr ys \<Rightarrow> Inr (y # ys)))"

section \<open>The secrets file parser (secrets-file.ts)\<close>

record AuthSection =
  au_method :: jsval
  au_role_id :: jsval
  au_secret_id :: jsval
  au_token :: jsval
  au_kube_role :: jsval

record VaultSection =
  vs_address :: jsval
  vs_namespace :: jsval
  vs_path :: jsval
  vs_triggerRedeploy :: jsval
  vs_auth :: "AuthSection option"

record SecretDefinition =
  sd_name :: jsval
  sd_key :: jsval
  sd_path :: jsval
  sd_triggerRedeploy :: jsval

record SecretsFileConfig =
  vault :: "VaultSection option"
  secrets :: "SecretDefinition list"

text \<open>The callback of \<^verbatim>\<open>parsed.secrets.map\<close> in \<^verbatim>\<open>parseSecretsFile\<close>.\<close>

definition parseSecretItem :: "jsval \<Rightarrow> exn + SecretDefinition" where
  "parseSecretItem item =
     (case item of
        JStr s \<Rightarrow>
          Inr \<lparr>sd_name = JStr (toUpperCase s), sd_key = JStr (toLowerCase s),
               sd_path = JUndefined, sd_triggerRedeploy = JUndefined\<rparr>
      | _ \<Rightarrow>
          if typeof item = ''object'' then
            (case read_prop item ''name'' of
               Inl e \<Rightarrow> Inl e
             | Inr name \<Rightarrow>
                 if truthy name then
                   (case (if truthy (get item ''key'') then Inr (get item ''key'')
                          else call_toLowerCase name) of
                      Inl e \<Rightarrow> Inl e
                    | Inr key \<Rightarrow>
                        Inr \<lparr>sd_name = name, sd_key = key, sd_path = get item ''path'',
                             sd_triggerRedeploy = get item ''triggerRedeploy''\<rparr>)
                 else Inl (InvalidSecretDefinition item))
          else Inl (InvalidSecretDefinition item))"

definition parseVaultSection :: "jsval \<Rightarrow> VaultSection option" where
  "parseVaultSection parsed =
     (let v = get parsed ''vault'' in
      if truthy v then
        Some \<lparr>vs_address = get v ''address'',
              vs_namespace = get v ''namespace'',
              vs_path = get v ''path'',
              vs_triggerRedeploy = js_coalesce (get v ''triggerRedeploy'') (JBool False),
              vs_auth =
                (let a = get v ''auth'' in
                 if truthy a then
                   Some \<lparr>au_method = get a ''method'', au_role_id = get a ''role_id'',
                         au_secret_id = get a ''secret_id'', au_token = get a ''token'',
                         au_kube_role = get a ''kube_role''\<rparr>
                 else None)\<rparr>
      else None)"

fun elems :: "jsval \<Rightarrow> jsval list" where
  "elems (JArr xs) = xs"
| "elems v = []"

text \<open>\<^verbatim>\<open>parseSecretsFile(content)\<close>.  \<^verbatim>\<open>yaml.load\<close> belongs to the js-yaml library and is a
  parameter: it returns the loaded document or throws.\<close>

definition parseSecretsFile :: "(string \<Rightarrow> exn + jsval) \<Rightarrow> string \<Rightarrow> exn + SecretsFileConfig" where
  "parseSecretsFile yaml_load content =
     (case yaml_load content of
        Inl e \<Rightarrow> Inl e
      | Inr parsed \<Rightarrow>
          if \<not> truthy parsed \<or> typeof parsed \<noteq> ''object'' then
            Inl (Error ''Invalid secrets file: expected YAML object'')
          else
            let vaultSection = parseVaultSection parsed in
            if \<not> truthy (get parsed ''secrets'') \<or> \<not> isArray (get parsed ''secrets'') then
              Inl (Error ''Invalid secrets file: secrets must be an array'')
            else
              (case mapE parseSecretItem (elems (get parsed ''secrets'')) of
                 Inl e \<Rightarrow> Inl e
               | Inr defs \<Rightarrow> Inr \<lparr>vault = vaultSection, secrets = defs\<rparr>))"

record SecretMapping =
  envVar :: jsval
  vaultKey :: jsval
  triggerRedeploy :: jsval

record AuthOverride =
  ao_method :: jsval
  ao_roleId :: jsval
  ao_secretId :: jsval
  ao_token :: jsval
  ao_kubeRole :: jsval

text \<open>\<^verbatim>\<open>secretsByPath\<close> is a JavaScript \<^verbatim>\<open>Map\<close>: its entries are kept in the order in which
  their keys were first inserted, which is the order the orchestrator iterates them in.
  It is an association list with distinct keys; \<^verbatim>\<open>AList.update\<close> replaces the value of a
  present key in place and appends an absent one.\<close>

record ParsedSecretsConfig =
  vaultPath :: jsval
  vaultAddress :: jsval
  vaultNamespace :: jsval
  authOverride :: "AuthOverride option"
  secretsByPath :: "(jsval \<times> SecretMapping list) list"
  triggerRedeployDefault :: jsval

text \<open>The block ``Ensure path uses KV v2 format'':
  \<^verbatim>\<open>if (!path.includes('/data/')) { const parts = path.split('/');
       if (parts.length >= 2) path = `${parts[0]}/data/${parts.slice(1).join('/')}` }\<close>.
  The path is whatever the manifest holds.  A string has \<^verbatim>\<open>includes\<close> (substring) and
  \<^verbatim>\<open>split\<close>; an array has \<^verbatim>\<open>includes\<close> (membership) but no \<^verbatim>\<open>split\<close>; other values have
  neither, and calling a missing method throws.\<close>

fun ensureKvV2 :: "jsval \<Rightarrow> exn + jsval" where
  "ensureKvV2 (JStr s) =
     (if \<not> sublist ''/data/'' s then
        (let parts = split_on CHR ''/'' s in
         if length parts \<ge> 2 then Inr (JStr (hd parts @ ''/data/'' @ join ''/'' (tl parts)))
         else Inr (JStr s))
      else Inr (JStr s))"
| "ensureKvV2 (JArr xs) =
     (if JStr ''/data/'' \<notin> set xs then Inl (TypeError ''path.split is not a function'')
      else Inr (JArr xs))"
| "ensureKvV2 v = Inl (TypeError ''path.includes is not a function'')"

text \<open>\<^verbatim>\<open>if (!secretsByPath.has(path)) secretsByPath.set(path, []);
  secretsByPath.get(path)!.push(m)\<close>.\<close>

definition pushMapping ::
  "(jsval \<times> SecretMapping list) list \<Rightarrow> jsval \<Rightarrow> SecretMapping \<Rightarrow> (jsval \<times> SecretMapping list) list" where
  "pushMapping byPath path m =
     (case map_of byPath path of
        None \<Rightarrow> AList.update path [m] byPath
      | Some ms \<Rightarrow> AList.update path (ms @ [m]) byPath)"

text \<open>One pass of \<^verbatim>\<open>for (const secret of config.secrets)\<close> in
  \<^verbatim>\<open>parseAndNormalizeSecretsFile\<close>: the path the secret is filed under and its mapping.\<close>

definition normalizeSecret :: "jsval \<Rightarrow> jsval \<Rightarrow> SecretDefinition \<Rightarrow> exn + (jsval \<times> SecretMapping)" where
  "normalizeSecret basePath triggerDefault secret =
     (case ensureKvV2 (if truthy (sd_path secret) then sd_path secret else basePath) of
        Inl e \<Rightarrow> Inl e
      | Inr path \<Rightarrow>
          let secretTriggerRedeploy =
                (if sd_triggerRedeploy secret \<noteq> JUndefined then sd_triggerRedeploy secret
                 else triggerDefault)
          in
          (case (if truthy (sd_key secret) then Inr (sd_key secret)
                 else call_toLowerCase (sd_name secret)) of
             Inl e \<Rightarrow> Inl e
           | Inr k \<Rightarrow>
               Inr (path, \<lparr>envVar = sd_name secret, vaultKey = k,
                           triggerRedeploy = secretTriggerRedeploy\<rparr>)))"

fun groupSecrets ::
  "jsval \<Rightarrow> jsval \<Rightarrow> SecretDefinition list \<Rightarrow> (jsval \<times> SecretMapping list) list
     \<Rightarrow> exn + (jsval \<times> SecretMapping list) list" where
  "groupSecrets basePath triggerDefault [] byPath = Inr byPath"
| "groupSecrets basePath triggerDefault (secret # rest) byPath =
     (case normalizeSecret basePath triggerDefault secret of
        Inl e \<Rightarrow> Inl e
      | Inr (path, m) \<Rightarrow> groupSecrets basePath triggerDefault rest (pushMapping byPath path m))"

definition vaultField :: "(VaultSection \<Rightarrow> jsval) \<Rightarrow> SecretsFileConfig \<Rightarrow> jsval" where
  "vaultField f config = (case vault config of None \<Rightarrow> JUndefined | Some v \<Rightarrow> f v)"

definition buildAuthOverride :: "SecretsFileConfig \<Rightarrow> AuthOverride option" where
  "buildAuthOverride config =
     (case vault config of
        None \<Rightarrow> None
      | Some v \<Rightarrow>
          (case vs_auth v of
             None \<Rightarrow> None
           | Some a \<Rightarrow>
               if truthy (au_method a) then
                 Some \<lparr>ao_method = au_method a, ao_roleId = au_role_id a,
                       ao_secretId = au_secret_id a, ao_token = au_token a,
                       ao_kubeRole = au_kube_role a\<rparr>
               else None))"

text \<open>\<^verbatim>\<open>parseAndNormalizeSecretsFile(content, defaultPath = 'secret/data')\<close>; the default value
  of the second parameter is supplied by the caller of this definition.\<close>

definition parseAndNormalizeSecretsFile ::
  "(string \<Rightarrow> exn + jsval) \<Rightarrow> string \<Rightarrow> string \<Rightarrow> exn + ParsedSecretsConfig" where
  "parseAndNormalizeSecretsFile yaml_load content defaultPath =
     (case parseSecretsFile yaml_load content of
        Inl e \<Rightarrow> Inl e
      | Inr config \<Rightarrow>
          let basePath = js_or (vaultField vs_path config) (JStr defaultPath);
              triggerDefault = js_coalesce (vaultField vs_triggerRedeploy config) (JBool False)
          in
          (case groupSecrets basePath triggerDefault (secrets config) [] of
             Inl e \<Rightarrow> Inl e
           | Inr byPath \<Rightarrow>
               Inr \<lparr>vaultPath = basePath,
                    vaultAddress = vaultField vs_address config,
                    vaultNamespace = vaultField vs_namespace config,
                    authOverride = buildAuthOverride config,
                    secretsByPath = byPath,
                    triggerRedeployDefault = triggerDefault\<rparr>))"

section \<open>The outside world\<close>

text \<open>\<^verbatim>\<open>String(v)\<close>, which is also how a value used as a property key is turned into the
  key (\<^verbatim>\<open>key in allSecrets\<close>, \<^verbatim>\<open>existingSecrets[secret.key]\<close>).\<close>

fun js_String :: "jsval \<Rightarrow> string" where
  "js_String JUndefined = ''undefined''"
| "js_String JNull = ''null''"
| "js_String (JBool b) = (if b then ''true'' else ''false'')"
| "js_String (JNum n) = n"
| "js_String (JStr s) = s"
| "js_String (JArr xs) = join '','' (map (\<lambda>x. if nullish x then [] else js_String x) xs)"
| "js_String (JObj kvs) = ''[object Object]''"

record VaultConfig =
  address :: jsval
  namespace :: jsval
  defaultPath :: jsval
  authMethod :: jsval
  token :: jsval
  roleId :: jsval
  secretId :: jsval
  kubeRole :: jsval
  skipTlsVerify :: jsval
  enabled :: jsval

record GitStack =
  stackName :: string
  environmentId :: "int option"

text \<open>
  The modules \<^verbatim>\<open>db.js\<close>, \<^verbatim>\<open>db/drizzle.js\<close>, \<^verbatim>\<open>stacks.js\<close> and \<^verbatim>\<open>encryption.js\<close>, the file
  system, js-yaml and the Vault server are outside the code modelled here.  Each call into
  them is a field of the record below: a function of the call's arguments (and of the
  database state \<open>'db\<close> for the database calls) that returns the call's result or the
  exception it throws.  An environment id that is \<^verbatim>\<open>null\<close> or \<^verbatim>\<open>undefined\<close> is \<open>None\<close>.
  A \<^verbatim>\<open>Record<string, string>\<close> is a map from property names to values.

  \<^item> \<open>stackSourceEnvIds db name\<close>: the \<^verbatim>\<open>environmentId\<close> column of the rows
    \<^verbatim>\<open>db.select().from(stackSources).where(eq(stackSources.stackName, name))\<close>;
  \<^item> \<open>path_join\<close>, \<open>existsSync\<close>, \<open>file_text\<close>: \<^verbatim>\<open>join\<close> of \<^verbatim>\<open>node:path\<close>, \<^verbatim>\<open>existsSync\<close> of
    \<^verbatim>\<open>node:fs\<close> and \<^verbatim>\<open>Bun.file(p).text()\<close>;
  \<^item> \<open>createVaultClient\<close> and \<open>readSecret\<close>: the authenticated session and
    \<^verbatim>\<open>VaultClient.readSecret\<close>, which talk to the server;
  \<^item> \<open>upsertStackEnvVars\<close> returns the database after the write; a write that throws
    leaves the database as it was.
\<close>

record ('db, 'client) world =
  stackSourceEnvIds :: "'db \<Rightarrow> string \<Rightarrow> exn + int option list"
  path_join :: "string \<Rightarrow> string \<Rightarrow> string"
  existsSync :: "string \<Rightarrow> bool"
  file_text :: "string \<Rightarrow> exn + string"
  yaml_load :: "string \<Rightarrow> exn + jsval"
  getVaultConfig :: "'db \<Rightarrow> exn + VaultConfig option"
  createVaultClient :: "VaultConfig \<Rightarrow> exn + 'client"
  readSecret :: "'client \<Rightarrow> jsval \<Rightarrow> exn + (string \<rightharpoonup> string)"
  getSecretEnvVarsAsRecord :: "'db \<Rightarrow> string \<Rightarrow> int option \<Rightarrow> exn + (string \<rightharpoonup> string)"
  upsertStackEnvVars :: "'db \<Rightarrow> string \<Rightarrow> int option \<Rightarrow> (jsval \<times> string) list \<Rightarrow> exn + 'db"
  getGitStacks :: "'db \<Rightarrow> exn + GitStack list"
  getStackDir :: "GitStack \<Rightarrow> exn + string option"

subsection \<open>Finding and reading the secrets file\<close>

definition SECRETS_FILE_NAMES :: "string list" where
  "SECRETS_FILE_NAMES = [''.secrets.yaml'', ''.secrets.yml'', ''secrets.yaml'', ''secrets.yml'']"

definition findSecretsFile :: "('db, 'client) world \<Rightarrow> string \<Rightarrow> string option" where
  "findSecretsFile w stackDir =
     List.find (existsSync w) (map (path_join w stackDir) SECRETS_FILE_NAMES)"

text \<open>\<^verbatim>\<open>readSecretsFile(stackDir)\<close>: \<open>None\<close> is \<^verbatim>\<open>null\<close>.  The call
  \<^verbatim>\<open>parseAndNormalizeSecretsFile(content)\<close> passes no \<^verbatim>\<open>defaultPath\<close>, so the parameter
  takes its default value \<^verbatim>\<open>'secret/data'\<close>.  The \<^verbatim>\<open>catch\<close> logs and rethrows.\<close>

definition readSecretsFile :: "('db, 'client) world \<Rightarrow> string \<Rightarrow> exn + ParsedSecretsConfig option" where
  "readSecretsFile w stackDir =
     (case findSecretsFile w stackDir of
        None \<Rightarrow> Inr None
      | Some filePath \<Rightarrow>
          if filePath = [] then Inr None
          else
            (case file_text w filePath of
               Inl e \<Rightarrow> Inl e
             | Inr content \<Rightarrow>
                 (case parseAndNormalizeSecretsFile (yaml_load w) content ''secret/data'' of
                    Inl e \<Rightarrow> Inl e
                  | Inr config \<Rightarrow> Inr (Some config))))"

subsection \<open>\<^verbatim>\<open>VaultClient.getSecrets\<close> (vault.ts)\<close>

text \<open>\<^verbatim>\<open>for (const key of keys) if (key in allSecrets) result.push({key, value: allSecrets[key]})\<close>;
  a key that is absent is logged with \<^verbatim>\<open>console.warn\<close> and left out.\<close>

fun pickKeys :: "(string \<rightharpoonup> string) \<Rightarrow> jsval list \<Rightarrow> (jsval \<times> string) list" where
  "pickKeys allSecrets [] = []"
| "pickKeys allSecrets (key # keys) =
     (case allSecrets (js_String key) of
        Some v \<Rightarrow> (key, v) # pickKeys allSecrets keys
      | None \<Rightarrow> pickKeys allSecrets keys)"

definition getSecrets ::
  "('db, 'client) world \<Rightarrow> 'client \<Rightarrow> jsval \<Rightarrow> jsval list \<Rightarrow> exn + (jsval \<times> string) list" where
  "getSecrets w client path keys =
     (case readSecret w client path of
        Inl e \<Rightarrow> Inl e
      | Inr allSecrets \<Rightarrow> Inr (pickKeys allSecrets keys))"

section \<open>The sync orchestrator (vault-sync.ts)\<close>

text \<open>
  The entries of \<^verbatim>\<open>SyncResult.errors\<close> are built from template strings.  Each template is a
  constructor that keeps the values the template interpolates:
  \<^item> \<open>FailedToParse e\<close>: \<^verbatim>\<open>`Failed to parse secrets file: ${message of e}`\<close>;
  \<^item> \<open>VaultNotConfigured\<close>:
    \<^verbatim>\<open>'Vault is not configured or disabled. Configure Vault in Settings first.'\<close>;
  \<^item> \<open>FailedToConnect e\<close>: \<^verbatim>\<open>`Failed to connect to Vault: ${message of e}`\<close>;
  \<^item> \<open>SecretNotFound key path\<close>: \<^verbatim>\<open>`Secret "${key}" not found at path "${path}"`\<close>;
  \<^item> \<open>FailedToRead path e\<close>: \<^verbatim>\<open>`Failed to read secrets from "${path}": ${message of e}`\<close>;
  \<^item> \<open>FailedToSave e\<close>: \<^verbatim>\<open>`Failed to save secrets to database: ${message of e}`\<close>;
  \<^item> \<open>StackDirectoryNotFound\<close>: \<^verbatim>\<open>'Stack directory not found'\<close>;
  \<^item> \<open>Caught e\<close>: the message of \<open>e\<close> alone.
\<close>

datatype message =
    FailedToParse exn
  | VaultNotConfigured
  | FailedToConnect exn
  | SecretNotFound jsval jsval
  | FailedToRead jsval exn
  | FailedToSave exn
  | StackDirectoryNotFound
  | Caught exn

record SyncResult =
  success :: bool
  synced :: nat
  errors :: "message list"
  skipped :: bool
  secretsChanged :: bool
  triggerRedeploySecrets :: "jsval list"

text \<open>``Resolve environment ID from stack\_sources if not provided'': the lookup is inside a
  \<^verbatim>\<open>try\<close> whose \<^verbatim>\<open>catch\<close> only logs.\<close>

definition resolveEnvId :: "('db, 'client) world \<Rightarrow> 'db \<Rightarrow> string \<Rightarrow> int option \<Rightarrow> int option" where
  "resolveEnvId w db name envId =
     (case envId of
        Some i \<Rightarrow> Some i
      | None \<Rightarrow>
          (case stackSourceEnvIds w db name of
             Inl e \<Rightarrow> None
           | Inr sources \<Rightarrow> (case sources of [] \<Rightarrow> None | first # others \<Rightarrow> first)))"

text \<open>``Build effective Vault config (global + overrides from secrets file)''.\<close>

definition overrideField :: "(AuthOverride \<Rightarrow> jsval) \<Rightarrow> ParsedSecretsConfig \<Rightarrow> jsval" where
  "overrideField f secretsConfig =
     (case authOverride secretsConfig of None \<Rightarrow> JUndefined | Some a \<Rightarrow> f a)"

definition effectiveConfig :: "ParsedSecretsConfig \<Rightarrow> VaultConfig \<Rightarrow> VaultConfig" where
  "effectiveConfig secretsConfig globalConfig =
     \<lparr>address = js_or (vaultAddress secretsConfig) (address globalConfig),
      namespace = js_or (js_or (vaultNamespace secretsConfig) (namespace globalConfig)) JUndefined,
      defaultPath = js_or (defaultPath globalConfig) JUndefined,
      authMethod = js_or (overrideField ao_method secretsConfig) (authMethod globalConfig),
      token = js_or (js_or (overrideField ao_token secretsConfig) (token globalConfig)) JUndefined,
      roleId = js_or (js_or (overrideField ao_roleId secretsConfig) (roleId globalConfig)) JUndefined,
      secretId = js_or (js_or (overrideField ao_secretId secretsConfig) (secretId globalConfig)) JUndefined,
      kubeRole = js_or (js_or (overrideField ao_kubeRole secretsConfig) (kubeRole globalConfig)) JUndefined,
      skipTlsVerify = js_coalesce (skipTlsVerify globalConfig) (JBool False),
      enabled = JBool True\<rparr>"

text \<open>``Fetch existing secret values for comparison'': on an exception the record stays
  \<^verbatim>\<open>{}\<close>.\<close>

definition existingSecretsOf ::
  "('db, 'client) world \<Rightarrow> 'db \<Rightarrow> string \<Rightarrow> int option \<Rightarrow> (string \<rightharpoonup> string)" where
  "existingSecretsOf w db name envId =
     (case getSecretEnvVarsAsRecord w db name envId of
        Inl e \<Rightarrow> Map.empty
      | Inr existing \<Rightarrow> existing)"

text \<open>``Fetch secrets from each path''.  The state of the two loops is \<^verbatim>\<open>allSecrets\<close> (the
  pairs \<^verbatim>\<open>{key, value}\<close>; \<^verbatim>\<open>isSecret\<close> is always \<^verbatim>\<open>true\<close>), \<^verbatim>\<open>triggerRedeployMap\<close> and
  \<^verbatim>\<open>errors\<close>.  \<^verbatim>\<open>new Map(entries)\<close> inserts the entries in order.\<close>

definition newMap :: "('k \<times> 'v) list \<Rightarrow> ('k \<times> 'v) list" where
  "newMap entries = foldl (\<lambda>m (k, v). AList.update k v m) [] entries"

type_synonym fetchState = "(jsval \<times> string) list \<times> (jsval \<times> jsval) list \<times> message list"

fun collectMappings ::
  "jsval \<Rightarrow> (jsval \<times> string) list \<Rightarrow> SecretMapping list \<Rightarrow> fetchState \<Rightarrow> fetchState" where
  "collectMappings path secretsByKey [] st = st"
| "collectMappings path secretsByKey (mapping # rest) (allSecrets, triggerRedeployMap, errs) =
     (case map_of secretsByKey (vaultKey mapping) of
        Some v \<Rightarrow>
          collectMappings path secretsByKey rest
            (allSecrets @ [(envVar mapping, v)],
             AList.update (envVar mapping) (triggerRedeploy mapping) triggerRedeployMap,
             errs)
      | None \<Rightarrow>
          collectMappings path secretsByKey rest
            (allSecrets, triggerRedeployMap, errs @ [SecretNotFound (vaultKey mapping) path]))"

fun fetchPaths ::
  "('db, 'client) world \<Rightarrow> 'client \<Rightarrow> (jsval \<times> SecretMapping list) list \<Rightarrow> fetchState \<Rightarrow> fetchState" where
  "fetchPaths w client [] st = st"
| "fetchPaths w client ((path, mappings) # rest) (allSecrets, triggerRedeployMap, errs) =
     fetchPaths w client rest
       (case getSecrets w client path (map vaultKey mappings) of
          Inl e \<Rightarrow> (allSecrets, triggerRedeployMap, errs @ [FailedToRead path e])
        | Inr found \<Rightarrow>
            collectMappings path (newMap found) mappings (allSecrets, triggerRedeployMap, errs))"

text \<open>``Compare old vs new values to detect changes'': the state is \<^verbatim>\<open>changedSecrets\<close> and
  \<^verbatim>\<open>triggerRedeploySecrets\<close>.  \<^verbatim>\<open>triggerRedeployMap.get(k)\<close> of an absent key is
  \<^verbatim>\<open>undefined\<close>.\<close>

definition isChanged :: "(string \<rightharpoonup> string) \<Rightarrow> jsval \<Rightarrow> string \<Rightarrow> bool" where
  "isChanged existingSecrets k v =
     (let oldValue = existingSecrets (js_String k) in oldValue = None \<or> oldValue \<noteq> Some v)"

definition Map_get :: "(jsval \<times> jsval) list \<Rightarrow> jsval \<Rightarrow> jsval" where
  "Map_get m k = (case map_of m k of None \<Rightarrow> JUndefined | Some v \<Rightarrow> v)"

fun detectChanges ::
  "(string \<rightharpoonup> string) \<Rightarrow> (jsval \<times> jsval) list \<Rightarrow> (jsval \<times> string) list
     \<Rightarrow> jsval list \<times> jsval list \<Rightarrow> jsval list \<times> jsval list" where
  "detectChanges existingSecrets triggerRedeployMap [] st = st"
| "detectChanges existingSecrets triggerRedeployMap ((k, v) # rest) (changed, trigger) =
     detectChanges existingSecrets triggerRedeployMap rest
       (if isChanged existingSecrets k v then
          (changed @ [k],
           if truthy (Map_get triggerRedeployMap k) then trigger @ [k] else trigger)
        else (changed, trigger))"

text \<open>\<^verbatim>\<open>syncStackSecrets(stackName, stackDir, environmentId)\<close>.  The result is the exception
  the call throws, or the \<^verbatim>\<open>SyncResult\<close> it returns with the database it leaves.\<close>

definition syncStackSecrets ::
  "('db, 'client) world \<Rightarrow> 'db \<Rightarrow> string \<Rightarrow> string \<Rightarrow> int option \<Rightarrow> exn + (SyncResult \<times> 'db)" where
  "syncStackSecrets w db name stackDir envId =
     (let resolvedEnvId = resolveEnvId w db name envId in
      case readSecretsFile w stackDir of
        Inl e \<Rightarrow>
          Inr (\<lparr>success = False, synced = 0, errors = [FailedToParse e], skipped = False,
                secretsChanged = False, triggerRedeploySecrets = []\<rparr>, db)
      | Inr None \<Rightarrow>
          Inr (\<lparr>success = True, synced = 0, errors = [], skipped = True,
                secretsChanged = False, triggerRedeploySecrets = []\<rparr>, db)
      | Inr (Some secretsConfig) \<Rightarrow>
          (case getVaultConfig w db of
             Inl e \<Rightarrow> Inl e
           | Inr None \<Rightarrow>
               Inr (\<lparr>success = False, synced = 0, errors = [VaultNotConfigured], skipped = False,
                     secretsChanged = False, triggerRedeploySecrets = []\<rparr>, db)
           | Inr (Some globalConfig) \<Rightarrow>
               if \<not> truthy (enabled globalConfig) then
                 Inr (\<lparr>success = False, synced = 0, errors = [VaultNotConfigured], skipped = False,
                       secretsChanged = False, triggerRedeploySecrets = []\<rparr>, db)
               else
                 (case createVaultClient w (effectiveConfig secretsConfig globalConfig) of
                    Inl e \<Rightarrow>
                      Inr (\<lparr>success = False, synced = 0, errors = [FailedToConnect e],
                            skipped = False, secretsChanged = False,
                            triggerRedeploySecrets = []\<rparr>, db)
                  | Inr vaultClient \<Rightarrow>
                      (let existingSecrets = existingSecretsOf w db name resolvedEnvId;
                           (allSecrets, triggerRedeployMap, errs) =
                              fetchPaths w vaultClient (secretsByPath secretsConfig) ([], [], []);
                           (changedSecrets, triggerSecrets) =
                              detectChanges existingSecrets triggerRedeployMap allSecrets ([], []);
                           changed = (length changedSecrets > 0)
                       in
                       if length allSecrets > 0 then
                         (case upsertStackEnvVars w db name resolvedEnvId allSecrets of
                            Inl e \<Rightarrow>
                              Inr (\<lparr>success = False, synced = 0, errors = [FailedToSave e],
                                    skipped = False, secretsChanged = changed,
                                    triggerRedeploySecrets = triggerSecrets\<rparr>, db)
                          | Inr db' \<Rightarrow>
                              Inr (\<lparr>success = (length errs = 0), synced = length allSecrets,
                                    errors = errs, skipped = False, secretsChanged = changed,
                                    triggerRedeploySecrets = triggerSecrets\<rparr>, db'))
                       else
                         Inr (\<lparr>success = (length errs = 0), synced = length allSecrets,
                               errors = errs, skipped = False, secretsChanged = changed,
                               triggerRedeploySecrets = triggerSecrets\<rparr>, db)))))"

text \<open>\<^verbatim>\<open>syncAllStackSecrets()\<close>: the body of the loop over the stacks, with its
  \<^verbatim>\<open>try\<close>/\<^verbatim>\<open>catch\<close>; \<^verbatim>\<open>results\<close> is a \<^verbatim>\<open>Map\<close> keyed by the stack name.\<close>

definition failedResult :: "message \<Rightarrow> SyncResult" where
  "failedResult msg =
     \<lparr>success = False, synced = 0, errors = [msg], skipped = False,
      secretsChanged = False, triggerRedeploySecrets = []\<rparr>"

definition syncOneStack ::
  "('db, 'client) world \<Rightarrow> GitStack \<Rightarrow> (string \<times> SyncResult) list \<times> 'db
     \<Rightarrow> (string \<times> SyncResult) list \<times> 'db" where
  "syncOneStack w stack st =
     (case st of (results, db) \<Rightarrow>
        (case getStackDir w stack of
           Inl e \<Rightarrow> (AList.update (stackName stack) (failedResult (Caught e)) results, db)
         | Inr dirOpt \<Rightarrow>
             (case (case dirOpt of None \<Rightarrow> None | Some d \<Rightarrow> if d = [] then None else Some d) of
                None \<Rightarrow>
                  (AList.update (stackName stack) (failedResult StackDirectoryNotFound) results, db)
              | Some stackDir \<Rightarrow>
                  (case syncStackSecrets w db (stackName stack) stackDir (environmentId stack) of
                     Inl e \<Rightarrow>
                       (AList.update (stackName stack) (failedResult (Caught e)) results, db)
                   | Inr (result, db') \<Rightarrow>
                       (AList.update (stackName stack) result results, db')))))"

fun syncStacks ::
  "('db, 'client) world \<Rightarrow> GitStack list \<Rightarrow> (string \<times> SyncResult) list \<times> 'db
     \<Rightarrow> (string \<times> SyncResult) list \<times> 'db" where
  "syncStacks w [] st = st"
| "syncStacks w (stack # rest) st = syncStacks w rest (syncOneStack w stack st)"

definition syncAllStackSecrets ::
  "('db, 'client) world \<Rightarrow> 'db \<Rightarrow> exn + ((string \<times> SyncResult) list \<times> 'db)" where
  "syncAllStackSecrets w db =
     (case getGitStacks w db of
        Inl e \<Rightarrow> Inl e
      | Inr stacks \<Rightarrow> Inr (syncStacks w stacks ([], db)))"

section \<open>What a run fetches\<close>

text \<open>
  The claims speak of ``the fetched secrets'' of a sync.  The definitions of this section
  name them, for the statements below; they are not part of the program.  A secret is
  fetched when the read of its path succeeds and the record read has its vault key
  (\<open>foundIn\<close>, \<open>fetchedMappings\<close>: each fetched mapping with its value, in the order of
  the manifest's path groups).  \<open>fetchedSecrets\<close> is that list for a run of
  \<^verbatim>\<open>syncStackSecrets\<close>, empty when the run ends before it fetches.  \<open>trackFlags\<close> is the
  \<^verbatim>\<open>triggerRedeployMap\<close> after the fetched mappings were recorded in it.  \<open>changedFrom\<close> is
  the diff rule in the spec's words: no prior value counts as changed, a prior value
  counts as changed when the strings differ.
\<close>

fun foundIn :: "(string \<rightharpoonup> string) \<Rightarrow> SecretMapping list \<Rightarrow> (SecretMapping \<times> string) list" where
  "foundIn stored [] = []"
| "foundIn stored (m # ms) =
     (case stored (js_String (vaultKey m)) of
        Some v \<Rightarrow> (m, v) # foundIn stored ms
      | None \<Rightarrow> foundIn stored ms)"

fun fetchedMappings ::
  "('db, 'client) world \<Rightarrow> 'client \<Rightarrow> (jsval \<times> SecretMapping list) list
     \<Rightarrow> (SecretMapping \<times> string) list" where
  "fetchedMappings w client [] = []"
| "fetchedMappings w client ((path, mappings) # rest) =
     (case readSecret w client path of Inl e \<Rightarrow> [] | Inr stored \<Rightarrow> foundIn stored mappings)
       @ fetchedMappings w client rest"

definition fetchedSecrets ::
  "('db, 'client) world \<Rightarrow> 'db \<Rightarrow> string \<Rightarrow> (SecretMapping \<times> string) list" where
  "fetchedSecrets w db stackDir =
     (case readSecretsFile w stackDir of
        Inr (Some secretsConfig) \<Rightarrow>
          (case getVaultConfig w db of
             Inr (Some globalConfig) \<Rightarrow>
               if truthy (enabled globalConfig) then
                 (case createVaultClient w (effectiveConfig secretsConfig globalConfig) of
                    Inr vaultClient \<Rightarrow> fetchedMappings w vaultClient (secretsByPath secretsConfig)
                  | Inl e \<Rightarrow> [])
               else []
           | _ \<Rightarrow> [])
      | _ \<Rightarrow> [])"

definition trackFlags ::
  "(jsval \<times> jsval) list \<Rightarrow> (SecretMapping \<times> string) list \<Rightarrow> (jsval \<times> jsval) list" where
  "trackFlags T F = foldl (\<lambda>t (m, v). AList.update (envVar m) (triggerRedeploy m) t) T F"

definition changedFrom :: "string option \<Rightarrow> string \<Rightarrow> bool" where
  "changedFrom old v = (case old of None \<Rightarrow> True | Some s \<Rightarrow> s \<noteq> v)"

text \<open>The pairs \<^verbatim>\<open>{key: envVar, value}\<close> of the fetched secrets: the batch a run writes.\<close>

definition batchOf :: "(SecretMapping \<times> string) list \<Rightarrow> (jsval \<times> string) list" where
  "batchOf F = map (\<lambda>(m, v). (envVar m, v)) F"

text \<open>What one turn of the loop of \<^verbatim>\<open>syncAllStackSecrets\<close> stores under the stack's name,
  and the database it leaves.\<close>

definition stackOutcome :: "('db, 'client) world \<Rightarrow> 'db \<Rightarrow> GitStack \<Rightarrow> SyncResult \<times> 'db" where
  "stackOutcome w db stack =
     (case getStackDir w stack of
        Inl e \<Rightarrow> (failedResult (Caught e), db)
      | Inr None \<Rightarrow> (failedResult StackDirectoryNotFound, db)
      | Inr (Some d) \<Rightarrow>
          if d = [] then (failedResult StackDirectoryNotFound, db)
          else
            (case syncStackSecrets w db (stackName stack) d (environmentId stack) of
               Inl e \<Rightarrow> (failedResult (Caught e), db)
             | Inr (result, db') \<Rightarrow> (result, db')))"

text \<open>The exception one turn of that loop catches, if any: thrown by \<^verbatim>\<open>getStackDir\<close> or by
  \<^verbatim>\<open>syncStackSecrets\<close>.\<close>

definition stackThrows :: "('db, 'client) world \<Rightarrow> 'db \<Rightarrow> GitStack \<Rightarrow> exn option" where
  "stackThrows w db stack =
     (case getStackDir w stack of
        Inl e \<Rightarrow> Some e
      | Inr None \<Rightarrow> None
      | Inr (Some d) \<Rightarrow>
          if d = [] then None
          else
            (case syncStackSecrets w db (stackName stack) d (environmentId stack) of
               Inl e \<Rightarrow> Some e
             | Inr res \<Rightarrow> None))"

section \<open>Example inputs\<close>

text \<open>Loaded manifests used to run the definitions on concrete inputs.  The YAML text of
  each is given with it; \<open>loads doc\<close> is a \<^verbatim>\<open>yaml.load\<close> that returns \<open>doc\<close>.\<close>

definition loads :: "jsval \<Rightarrow> string \<Rightarrow> exn + jsval" where
  "loads doc content = Inr doc"

text \<open>\<^verbatim>\<open>secrets: [null]\<close>\<close>

definition manifest_null_item :: jsval where
  "manifest_null_item = JObj [(''secrets'', JArr [JNull])]"

text \<open>\<^verbatim>\<open>vault: {path: secret}\<close>, \<^verbatim>\<open>secrets: [db_pass]\<close>\<close>

definition manifest_single_segment :: jsval where
  "manifest_single_segment =
     JObj [(''vault'', JObj [(''path'', JStr ''secret'')]), (''secrets'', JArr [JStr ''db_pass''])]"

text \<open>\<^verbatim>\<open>vault: {path: kv/app, triggerRedeploy: true}\<close>,
  \<^verbatim>\<open>secrets: [db_pass, {name: API_KEY, key: api_key, triggerRedeploy: false}]\<close>\<close>

definition manifest_kv_app :: jsval where
  "manifest_kv_app =
     JObj [(''vault'', JObj [(''path'', JStr ''kv/app''), (''triggerRedeploy'', JBool True)]),
           (''secrets'', JArr [JStr ''db_pass'',
              JObj [(''name'', JStr ''API_KEY''), (''key'', JStr ''api_key''),
                    (''triggerRedeploy'', JBool False)]])]"

text \<open>What \<open>manifest_kv_app\<close> normalises to.\<close>

definition config_kv_app :: ParsedSecretsConfig where
  "config_kv_app =
     \<lparr>vaultPath = JStr ''kv/app'', vaultAddress = JUndefined, vaultNamespace = JUndefined,
      authOverride = None,
      secretsByPath =
        [(JStr ''kv/data/app'',
          [\<lparr>envVar = JStr ''DB_PASS'', vaultKey = JStr ''db_pass'', triggerRedeploy = JBool True\<rparr>,
           \<lparr>envVar = JStr ''API_KEY'', vaultKey = JStr ''api_key'', triggerRedeploy = JBool False\<rparr>])],
      triggerRedeployDefault = JBool True\<rparr>"

text \<open>\<^verbatim>\<open>secrets: [db_pass]\<close>, with no \<^verbatim>\<open>vault\<close> section.\<close>

definition manifest_no_vault :: jsval where
  "manifest_no_vault = JObj [(''secrets'', JArr [JStr ''db_pass''])]"

text \<open>\<^verbatim>\<open>vault: {path: kv/app}\<close>, \<^verbatim>\<open>secrets: [db_pass]\<close>\<close>

definition manifest_db_pass :: jsval where
  "manifest_db_pass =
     JObj [(''vault'', JObj [(''path'', JStr ''kv/app'')]), (''secrets'', JArr [JStr ''db_pass''])]"

text \<open>
  A small world to run the orchestrator in.  The database is the list of the stored secret
  variables, newest first, as rows (stack, environment, name, value).  The stack directory
  \<^verbatim>\<open>/stacks/app\<close> holds \<^verbatim>\<open>.secrets.yaml\<close>, which loads to \<open>manifest\<close>; Vault is enabled with the
  default path \<^verbatim>\<open>kv/data/myapp\<close>; the server holds one secret, at the path \<open>storedAt\<close>, with
  the single field \<^verbatim>\<open>db_pass\<close>.
\<close>

type_synonym demo_db = "(string \<times> int option \<times> string \<times> string) list"

definition demo_global :: VaultConfig where
  "demo_global =
     \<lparr>address = JStr ''https://vault.example.com:8200'', namespace = JNull,
      defaultPath = JStr ''kv/data/myapp'', authMethod = JStr ''token'',
      token = JStr ''encrypted-token'', roleId = JNull, secretId = JNull, kubeRole = JNull,
      skipTlsVerify = JBool False, enabled = JBool True\<rparr>"

definition demo_world :: "jsval \<Rightarrow> jsval \<Rightarrow> (demo_db, unit) world" where
  "demo_world manifest storedAt =
     \<lparr>stackSourceEnvIds = (\<lambda>db name. Inr []),
      path_join = (\<lambda>dir file. dir @ ''/'' @ file),
      existsSync = (\<lambda>p. p = ''/stacks/app/.secrets.yaml''),
      file_text = (\<lambda>p. Inr ''manifest''),
      yaml_load = loads manifest,
      getVaultConfig = (\<lambda>db. Inr (Some demo_global)),
      createVaultClient = (\<lambda>config. Inr ()),
      readSecret = (\<lambda>client path.
         if path = storedAt then Inr (\<lambda>k. if k = ''db_pass'' then Some ''s3cret'' else None)
         else Inl (Error ''Vault request failed (404)'')),
      getSecretEnvVarsAsRecord = (\<lambda>db name envId.
         Inr (map_of (map (\<lambda>(n, e, k, v). (k, v))
                (filter (\<lambda>(n, e, k, v). n = name \<and> e = envId) db)))),
      upsertStackEnvVars = (\<lambda>db name envId batch.
         Inr (map (\<lambda>(k, v). (name, envId, js_String k, v)) (rev batch) @ db)),
      getGitStacks = (\<lambda>db. Inr []),
      getStackDir = (\<lambda>stack. Inr (Some (''/stacks/'' @ stackName stack)))\<rparr>"

text \<open>A database write that throws, and a configuration read that throws.\<close>

definition failing_write ::
  "demo_db \<Rightarrow> string \<Rightarrow> int option \<Rightarrow> (jsval \<times> string) list \<Rightarrow> exn + demo_db" where
  "failing_write db name envId batch = Inl (Error ''database is locked'')"

definition failing_config :: "demo_db \<Rightarrow> exn + VaultConfig option" where
  "failing_config db = Inl (Error ''no such table: vault_config'')"

text \<open>The stack \<^verbatim>\<open>app\<close> deployed to two environments, and a fleet whose first stack has a
  directory that cannot be resolved.\<close>

definition app_in :: "int \<Rightarrow> GitStack" where
  "app_in env = \<lparr>stackName = ''app'', environmentId = Some env\<rparr>"

definition web_stack :: GitStack where
  "web_stack = \<lparr>stackName = ''web'', environmentId = None\<rparr>"

definition broken_dir :: "GitStack \<Rightarrow> exn + string option" where
  "broken_dir stack =
     (if stackName stack = ''web'' then Inl (Error ''EACCES: permission denied'')
      else Inr (Some (''/stacks/'' @ stackName stack)))"

definition synced_db_pass :: SyncResult where
  "synced_db_pass =
     \<lparr>success = True, synced = 1, errors = [], skipped = False, secretsChanged = True,
      triggerRedeploySecrets = []\<rparr>"

section \<open>Properties of the parser\<close>

subsection \<open>Splitting and joining\<close>

lemma split_on_nonempty: "split_on c s \<noteq> []"
  by (induction s) (auto split: list.splits)

lemma split_on_length: "c \<in> set s \<Longrightarrow> 2 \<le> length (split_on c s)"
proof (induction s)
  case Nil
  then show ?case by simp
next
  case (Cons x xs)
  show ?case
  proof (cases "x = c")
    case True
    then show ?thesis using split_on_nonempty [of c xs] by (cases "split_on c xs") auto
  next
    case False
    with Cons have "2 \<le> length (split_on c xs)" by simp
    with False show ?thesis by (cases "split_on c xs") auto
  qed
qed

lemma split_on_single: "c \<notin> set s \<Longrightarrow> split_on c s = [s]"
  by (induction s) auto

lemma join_Cons: "ps \<noteq> [] \<Longrightarrow> join sep (p # ps) = p @ sep @ join sep ps"
  by (cases ps) simp_all

lemma join_split_on: "join [c] (split_on c s) = s"
proof (induction s)
  case Nil
  show ?case by simp
next
  case (Cons x xs)
  obtain p ps where ps: "split_on c xs = p # ps"
    using split_on_nonempty [of c xs] by (cases "split_on c xs") auto
  show ?case
  proof (cases "x = c")
    case True
    with Cons ps show ?thesis by (simp add: join_Cons)
  next
    case False
    with Cons ps show ?thesis by (cases ps) auto
  qed
qed

lemma hd_split_on: "hd (split_on c s) = takeWhile (\<lambda>x. x \<noteq> c) s"
proof (induction s)
  case Nil
  show ?case by simp
next
  case (Cons x xs)
  then show ?case using split_on_nonempty [of c xs] by (cases "split_on c xs") auto
qed

lemma join_tl_split_on:
  "c \<in> set s \<Longrightarrow> join [c] (tl (split_on c s)) = tl (dropWhile (\<lambda>x. x \<noteq> c) s)"
proof (induction s)
  case Nil
  then show ?case by simp
next
  case (Cons x xs)
  show ?case
  proof (cases "x = c")
    case True
    then show ?thesis by (simp add: join_split_on)
  next
    case False
    with Cons have "join [c] (tl (split_on c xs)) = tl (dropWhile (\<lambda>x. x \<noteq> c) xs)" by simp
    with False show ?thesis using split_on_nonempty [of c xs] by (cases "split_on c xs") auto
  qed
qed

text \<open>What the KV v2 block does to a string: nothing when the marker is there or the path
  has one segment, otherwise \<^verbatim>\<open>/data/\<close> takes the place of the first \<^verbatim>\<open>/\<close>.\<close>

lemma ensureKvV2_string:
  "ensureKvV2 (JStr s) =
     Inr (JStr (if sublist ''/data/'' s \<or> CHR ''/'' \<notin> set s then s
                else takeWhile (\<lambda>x. x \<noteq> CHR ''/'') s @ ''/data/''
                       @ tl (dropWhile (\<lambda>x. x \<noteq> CHR ''/'') s)))"
proof (cases "CHR ''/'' \<in> set s")
  case True
  from split_on_length [OF True] have "2 \<le> length (split_on CHR ''/'' s)" .
  moreover from join_tl_split_on [OF True]
  have "join ''/'' (tl (split_on CHR ''/'' s)) = tl (dropWhile (\<lambda>x. x \<noteq> CHR ''/'') s)" .
  ultimately show ?thesis using True by (simp add: hd_split_on Let_def del: append.simps)
next
  case False
  then show ?thesis by (simp add: split_on_single)
qed

lemma ensureKvV2_shape:
  assumes "ensureKvV2 p = Inr k"
  shows "(\<exists>s. k = JStr s \<and> (sublist ''/data/'' s \<or> CHR ''/'' \<notin> set s))
       \<or> (\<exists>xs. k = JArr xs \<and> JStr ''/data/'' \<in> set xs)"
proof (cases p)
  case (JStr s)
  let ?r = "takeWhile (\<lambda>x. x \<noteq> CHR ''/'') s @ ''/data/'' @ tl (dropWhile (\<lambda>x. x \<noteq> CHR ''/'') s)"
  from assms JStr have "ensureKvV2 (JStr s) = Inr k" by simp
  then have k: "k = JStr (if sublist ''/data/'' s \<or> CHR ''/'' \<notin> set s then s else ?r)"
    by (simp only: ensureKvV2_string sum.inject)
  show ?thesis
  proof (cases "sublist ''/data/'' s \<or> CHR ''/'' \<notin> set s")
    case True
    with k show ?thesis by auto
  next
    case False
    with k have "k = JStr ?r" by simp
    moreover have "sublist ''/data/'' ?r" by (rule sublist_appendI)
    ultimately show ?thesis by blast
  qed
next
  case (JArr xs)
  with assms show ?thesis by (auto split: if_splits)
qed (use assms in simp_all)

subsection \<open>The loops of the parser\<close>

lemma mapE_member:
  assumes "mapE f xs = Inr ys" and "x \<in> set xs"
  shows "\<exists>y \<in> set ys. f x = Inr y"
  using assms
proof (induction xs arbitrary: ys)
  case Nil
  then show ?case by simp
next
  case (Cons a xs)
  from Cons.prems(1) obtain b bs where "f a = Inr b" "mapE f xs = Inr bs" "ys = b # bs"
    by (auto split: sum.splits)
  with Cons.IH [of bs] Cons.prems(2) show ?case by auto
qed

lemma pushMapping_keys: "fst ` set (pushMapping byPath p m) = insert p (fst ` set byPath)"
  by (simp add: pushMapping_def dom_update split: option.splits)

lemma pushMapping_same:
  "\<exists>ms. map_of (pushMapping byPath p m) p = Some ms \<and> m \<in> set ms"
  by (auto simp: pushMapping_def update_conv' split: option.splits)

lemma pushMapping_other: "q \<noteq> p \<Longrightarrow> map_of (pushMapping byPath p m) q = map_of byPath q"
  by (simp add: pushMapping_def update_conv' split: option.splits)

lemma pushMapping_keeps:
  assumes "map_of byPath q = Some ms" and "x \<in> set ms"
  shows "\<exists>ms'. map_of (pushMapping byPath p m) q = Some ms' \<and> x \<in> set ms'"
proof (cases "q = p")
  case True
  with assms show ?thesis by (auto simp: pushMapping_def update_conv')
next
  case False
  with assms show ?thesis by (simp add: pushMapping_other)
qed

lemma groupSecrets_keys:
  assumes "groupSecrets b d ss acc = Inr R" and "k \<in> fst ` set R"
  shows "k \<in> fst ` set acc \<or> (\<exists>s \<in> set ss. \<exists>m. normalizeSecret b d s = Inr (k, m))"
  using assms
proof (induction ss arbitrary: acc)
  case Nil
  then show ?case by simp
next
  case (Cons s ss)
  from Cons.prems(1) obtain p m where n: "normalizeSecret b d s = Inr (p, m)"
    and g: "groupSecrets b d ss (pushMapping acc p m) = Inr R"
    by (auto split: sum.splits)
  from Cons.IH [OF g Cons.prems(2)] show ?case
  proof
    assume "k \<in> fst ` set (pushMapping acc p m)"
    then have "k = p \<or> k \<in> fst ` set acc" by (simp add: pushMapping_keys)
    with n show ?thesis by auto
  next
    assume "\<exists>s\<in>set ss. \<exists>m. normalizeSecret b d s = Inr (k, m)"
    then show ?thesis by auto
  qed
qed

lemma groupSecrets_keeps:
  assumes "groupSecrets b d ss acc = Inr R" and "map_of acc q = Some ms" and "x \<in> set ms"
  shows "\<exists>ms'. map_of R q = Some ms' \<and> x \<in> set ms'"
  using assms
proof (induction ss arbitrary: acc ms)
  case Nil
  then show ?case by simp
next
  case (Cons s ss)
  from Cons.prems(1) obtain p m where
    g: "groupSecrets b d ss (pushMapping acc p m) = Inr R"
    by (auto split: sum.splits)
  from pushMapping_keeps [OF Cons.prems(2,3)] obtain ms' where
    "map_of (pushMapping acc p m) q = Some ms'" "x \<in> set ms'" by blast
  from Cons.IH [OF g this] show ?case .
qed

lemma groupSecrets_member:
  assumes "groupSecrets b d ss acc = Inr R" and "s \<in> set ss"
  shows "\<exists>p m ms. normalizeSecret b d s = Inr (p, m) \<and> map_of R p = Some ms \<and> m \<in> set ms"
  using assms
proof (induction ss arbitrary: acc)
  case Nil
  then show ?case by simp
next
  case (Cons a ss)
  from Cons.prems(1) obtain p m where n: "normalizeSecret b d a = Inr (p, m)"
    and g: "groupSecrets b d ss (pushMapping acc p m) = Inr R"
    by (auto split: sum.splits)
  show ?case
  proof (cases "s = a")
    case True
    from pushMapping_same [of acc p m] obtain ms where
      "map_of (pushMapping acc p m) p = Some ms" "m \<in> set ms" by blast
    from groupSecrets_keeps [OF g this] n True show ?thesis by blast
  next
    case False
    with Cons.prems(2) have "s \<in> set ss" by simp
    from Cons.IH [OF g this] show ?thesis .
  qed
qed

lemma normalizeSecret_path:
  assumes "normalizeSecret b d s = Inr (k, m)"
  shows "ensureKvV2 (if truthy (sd_path s) then sd_path s else b) = Inr k"
  using assms by (auto simp: normalizeSecret_def Let_def split: sum.splits if_splits)

lemma normalizeSecret_flag:
  assumes "normalizeSecret b d s = Inr (p, m)"
  shows "envVar m = sd_name s"
    and "triggerRedeploy m = (if sd_triggerRedeploy s \<noteq> JUndefined then sd_triggerRedeploy s else d)"
  using assms
  by (auto simp: normalizeSecret_def Let_def split: sum.splits if_splits)

lemma parseAndNormalize_InrD:
  assumes "parseAndNormalizeSecretsFile yl content dp = Inr cfg"
  shows "\<exists>config. parseSecretsFile yl content = Inr config
    \<and> groupSecrets (js_or (vaultField vs_path config) (JStr dp))
           (js_coalesce (vaultField vs_triggerRedeploy config) (JBool False))
           (secrets config) [] = Inr (secretsByPath cfg)
    \<and> vaultPath cfg = js_or (vaultField vs_path config) (JStr dp)"
proof (cases "parseSecretsFile yl content")
  case (Inl e)
  with assms show ?thesis by (simp add: parseAndNormalizeSecretsFile_def)
next
  case (Inr config)
  with assms show ?thesis
    by (auto simp: parseAndNormalizeSecretsFile_def Let_def split: sum.splits)
qed

lemma parseSecretsFile_InrD:
  assumes "parseSecretsFile yl content = Inr config" and "yl content = Inr doc"
  shows "vault config = parseVaultSection doc"
    and "mapE parseSecretItem (elems (get doc ''secrets'')) = Inr (secrets config)"
  using assms
  by (auto simp: parseSecretsFile_def Let_def split: sum.splits if_splits)

lemma parseSecretItem_flag:
  assumes "parseSecretItem item = Inr sd"
  shows "sd_triggerRedeploy sd = get item ''triggerRedeploy''"
  using assms
  by (cases item) (auto simp: parseSecretItem_def read_prop_def split: sum.splits if_splits)

lemma get_falsy: "\<not> truthy v \<Longrightarrow> get v k = JUndefined"
  by (cases v) simp_all

lemma triggerDefault_of_doc:
  "js_coalesce (vaultField vs_triggerRedeploy \<lparr>vault = parseVaultSection doc, secrets = ss\<rparr>) (JBool False)
     = js_coalesce (get (get doc ''vault'') ''triggerRedeploy'') (JBool False)"
  by (auto simp: vaultField_def parseVaultSection_def Let_def js_coalesce_def nullish_def get_falsy)

subsection \<open>Item shapes\<close>

lemma parseSecretsFile_root:
  assumes "yl content = Inr doc" and "\<not> truthy doc \<or> typeof doc \<noteq> ''object''"
  shows "parseSecretsFile yl content = Inl (Error ''Invalid secrets file: expected YAML object'')"
  using assms by (auto simp: parseSecretsFile_def)

lemma parseSecretsFile_secrets_not_array:
  assumes "yl content = Inr doc" and "truthy doc" and "typeof doc = ''object''"
      and "\<not> isArray (get doc ''secrets'')"
  shows "parseSecretsFile yl content = Inl (Error ''Invalid secrets file: secrets must be an array'')"
  using assms by (simp add: parseSecretsFile_def Let_def)

lemma parseSecretItem_string:
  "parseSecretItem (JStr s) =
     Inr \<lparr>sd_name = JStr (toUpperCase s), sd_key = JStr (toLowerCase s),
          sd_path = JUndefined, sd_triggerRedeploy = JUndefined\<rparr>"
  by (simp add: parseSecretItem_def)

lemma parseSecretItem_object:
  assumes "get (JObj kvs) ''name'' = JStr n" and "n \<noteq> []"
  shows "parseSecretItem (JObj kvs) =
     Inr \<lparr>sd_name = JStr n,
          sd_key = (if truthy (get (JObj kvs) ''key'') then get (JObj kvs) ''key''
                    else JStr (toLowerCase n)),
          sd_path = get (JObj kvs) ''path'',
          sd_triggerRedeploy = get (JObj kvs) ''triggerRedeploy''\<rparr>"
  using assms by (simp add: parseSecretItem_def read_prop_def nullish_def)

lemma parseSecretItem_other:
  assumes "typeof item \<noteq> ''string''" and "item \<noteq> JNull"
      and "typeof item \<noteq> ''object'' \<or> \<not> truthy (get item ''name'')"
  shows "parseSecretItem item = Inl (InvalidSecretDefinition item)"
  using assms by (cases item) (auto simp: parseSecretItem_def read_prop_def nullish_def)

text \<open>
  C9.  A manifest parses to an error when its root is not an object or \<^verbatim>\<open>secrets\<close> is not a
  list; a string item \<open>S\<close> becomes name \<open>toUpperCase S\<close>, key \<open>toLowerCase S\<close>; an object
  item needs a name and its key defaults to the lower-cased name; every other item is to be
  refused with the error that names it (the four lemmas above).  The item \<^verbatim>\<open>null\<close> is the
  exception: \<^verbatim>\<open>typeof null\<close> is \<^verbatim>\<open>'object'\<close>, so the test
  \<^verbatim>\<open>typeof item === 'object' && item.name\<close> reads a property of \<^verbatim>\<open>null\<close> and the engine's
  \<^verbatim>\<open>TypeError\<close> leaves the parser before
  \<^verbatim>\<open>throw new Error(`Invalid secret definition: ${JSON.stringify(item)}`)\<close> is reached.
  The theorem runs the parser on \<^verbatim>\<open>secrets: [null]\<close>.
\<close>

theorem parseSecretsFile_null_item:
  "parseSecretsFile (loads manifest_null_item) ''secrets: [null]''
     = Inl (TypeError ''cannot read property name of null or undefined'')"
  by code_simp

theorem parseSecretsFile_null_item_witness:
  "parseSecretsFile (loads manifest_null_item) ''secrets: [null]''
     \<noteq> Inl (InvalidSecretDefinition JNull)"
  using parseSecretsFile_null_item by simp

subsection \<open>The redeploy flag\<close>

text \<open>
  C3.  For every item of the \<^verbatim>\<open>secrets\<close> list of a manifest that parses and normalises, the
  normalised configuration holds a mapping for it whose \<^verbatim>\<open>triggerRedeploy\<close> is the item's own
  \<^verbatim>\<open>triggerRedeploy\<close> when the item sets it, otherwise the manifest's
  \<^verbatim>\<open>vault.triggerRedeploy\<close>, otherwise \<^verbatim>\<open>false\<close>; each of the two flags being unset,
  \<^verbatim>\<open>false\<close> or \<^verbatim>\<open>true\<close>.  (A string item has no property, so its flag is unset.)
\<close>

theorem triggerRedeploy_two_level:
  assumes "yl content = Inr doc"
      and "parseAndNormalizeSecretsFile yl content dp = Inr cfg"
      and "item \<in> set (elems (get doc ''secrets''))"
      and "get item ''triggerRedeploy'' \<in> {JUndefined, JBool False, JBool True}"
      and "get (get doc ''vault'') ''triggerRedeploy'' \<in> {JUndefined, JBool False, JBool True}"
  shows "\<exists>sd path ms m. parseSecretItem item = Inr sd
           \<and> (path, ms) \<in> set (secretsByPath cfg) \<and> m \<in> set ms
           \<and> envVar m = sd_name sd
           \<and> triggerRedeploy m =
               (if get item ''triggerRedeploy'' \<noteq> JUndefined then get item ''triggerRedeploy''
                else if get (get doc ''vault'') ''triggerRedeploy'' \<noteq> JUndefined
                     then get (get doc ''vault'') ''triggerRedeploy''
                else JBool False)"
proof -
  let ?g = "get (get doc ''vault'') ''triggerRedeploy''"
  from parseAndNormalize_InrD [OF assms(2)] obtain config :: SecretsFileConfig where
    pc: "parseSecretsFile yl content = Inr config" and
    g: "groupSecrets (js_or (vaultField vs_path config) (JStr dp))
           (js_coalesce (vaultField vs_triggerRedeploy config) (JBool False))
           (secrets config) [] = Inr (secretsByPath cfg)"
    by blast
  from parseSecretsFile_InrD [OF pc assms(1)] have
    v: "vault config = parseVaultSection doc" and
    items: "mapE parseSecretItem (elems (get doc ''secrets'')) = Inr (secrets config)" .
  from v have "config = \<lparr>vault = parseVaultSection doc, secrets = secrets config\<rparr>" by simp
  then have "js_coalesce (vaultField vs_triggerRedeploy config) (JBool False)
      = js_coalesce ?g (JBool False)"
    using triggerDefault_of_doc [of doc "secrets config"] by simp
  with assms(5) have d: "js_coalesce (vaultField vs_triggerRedeploy config) (JBool False)
      = (if ?g \<noteq> JUndefined then ?g else JBool False)"
    by (auto simp: js_coalesce_def nullish_def)
  from mapE_member [OF items assms(3)] obtain sd where
    sd: "sd \<in> set (secrets config)" "parseSecretItem item = Inr sd" by blast
  from groupSecrets_member [OF g sd(1)] obtain p m ms where
    n: "normalizeSecret (js_or (vaultField vs_path config) (JStr dp))
          (js_coalesce (vaultField vs_triggerRedeploy config) (JBool False)) sd = Inr (p, m)"
    and l: "map_of (secretsByPath cfg) p = Some ms" and m: "m \<in> set ms" by blast
  from l have mem: "(p, ms) \<in> set (secretsByPath cfg)" by (rule map_of_SomeD)
  from normalizeSecret_flag [OF n] parseSecretItem_flag [OF sd(2)] d
  have name: "envVar m = sd_name sd"
    and flag: "triggerRedeploy m =
      (if get item ''triggerRedeploy'' \<noteq> JUndefined then get item ''triggerRedeploy''
       else if ?g \<noteq> JUndefined then ?g else JBool False)"
    by simp_all
  from sd(2) mem m name flag show ?thesis by blast
qed

text \<open>The manifest with \<^verbatim>\<open>vault.triggerRedeploy: true\<close> and the item \<^verbatim>\<open>API_KEY\<close> that sets
  \<^verbatim>\<open>triggerRedeploy: false\<close>: the item's own flag wins.\<close>

theorem triggerRedeploy_two_level_witness:
  "\<exists>sd path ms m.
      parseSecretItem (JObj [(''name'', JStr ''API_KEY''), (''key'', JStr ''api_key''),
                             (''triggerRedeploy'', JBool False)]) = Inr sd
    \<and> (path, ms) \<in> set (secretsByPath config_kv_app) \<and> m \<in> set ms
    \<and> envVar m = sd_name sd \<and> triggerRedeploy m = JBool False"
proof -
  let ?item = "JObj [(''name'', JStr ''API_KEY''), (''key'', JStr ''api_key''),
                     (''triggerRedeploy'', JBool False)]"
  have h1: "loads manifest_kv_app ''manifest'' = Inr manifest_kv_app"
    by (simp add: loads_def)
  have h2: "parseAndNormalizeSecretsFile (loads manifest_kv_app) ''manifest'' ''secret/data''
              = Inr config_kv_app"
    by code_simp
  have h3: "?item \<in> set (elems (get manifest_kv_app ''secrets''))"
    by (simp add: manifest_kv_app_def)
  have own: "get ?item ''triggerRedeploy'' = JBool False"
    by simp
  have glob: "get (get manifest_kv_app ''vault'') ''triggerRedeploy'' = JBool True"
    by (simp add: manifest_kv_app_def)
  have h4: "get ?item ''triggerRedeploy'' \<in> {JUndefined, JBool False, JBool True}"
    by (simp only: own) simp
  have h5: "get (get manifest_kv_app ''vault'') ''triggerRedeploy''
              \<in> {JUndefined, JBool False, JBool True}"
    by (simp only: glob) simp
  from triggerRedeploy_two_level [OF h1 h2 h3 h4 h5] show ?thesis
    by (simp only: own) simp
qed

subsection \<open>The keys of \<^verbatim>\<open>secretsByPath\<close>\<close>

text \<open>A manifest whose base path is the single segment \<^verbatim>\<open>secret\<close>: the path has one part,
  the guard \<^verbatim>\<open>parts.length >= 2\<close> fails, and the key stays \<^verbatim>\<open>secret\<close>, which does not
  contain \<^verbatim>\<open>/data/\<close>.\<close>

theorem single_segment_key_counterexample:
  "parseAndNormalizeSecretsFile (loads manifest_single_segment)
       ''vault: {path: secret}, secrets: [db_pass]'' ''secret/data''
     = Inr \<lparr>vaultPath = JStr ''secret'', vaultAddress = JUndefined, vaultNamespace = JUndefined,
            authOverride = None,
            secretsByPath =
              [(JStr ''secret'',
                [\<lparr>envVar = JStr ''DB_PASS'', vaultKey = JStr ''db_pass'',
                   triggerRedeploy = JBool False\<rparr>])],
            triggerRedeployDefault = JBool False\<rparr>
   \<and> \<not> sublist ''/data/'' ''secret''"
  by code_simp

text \<open>
  C5 (amended).  For every parsed manifest, every key of \<^verbatim>\<open>secretsByPath\<close> is the resolved
  path of one of the secrets (its own \<^verbatim>\<open>path\<close>, else the base path) after the KV v2 block:
  a string path that lacks \<^verbatim>\<open>/data/\<close> and has at least two \<^verbatim>\<open>/\<close>-delimited segments is
  rewritten by putting \<^verbatim>\<open>/data/\<close> in the place of its first \<^verbatim>\<open>/\<close>, and a path of a single
  segment is left as it is.  So every key that is a string with a \<^verbatim>\<open>/\<close> in it contains
  \<^verbatim>\<open>/data/\<close>.  (A path that is not a string only passes when it is an array with the
  element \<^verbatim>\<open>'/data/'\<close>.)
\<close>

theorem secretsByPath_keys_kv2:
  assumes "parseSecretsFile yl content = Inr config"
      and "parseAndNormalizeSecretsFile yl content dp = Inr cfg"
      and "(k, ms) \<in> set (secretsByPath cfg)"
  shows "(\<exists>secret p. secret \<in> set (secrets config)
            \<and> p = (if truthy (sd_path secret) then sd_path secret else vaultPath cfg)
            \<and> ((\<exists>s. p = JStr s
                   \<and> k = JStr (if sublist ''/data/'' s \<or> CHR ''/'' \<notin> set s then s
                               else takeWhile (\<lambda>x. x \<noteq> CHR ''/'') s @ ''/data/''
                                      @ tl (dropWhile (\<lambda>x. x \<noteq> CHR ''/'') s)))
               \<or> (\<exists>xs. p = JArr xs \<and> JStr ''/data/'' \<in> set xs \<and> k = p)))
       \<and> (\<forall>s. k = JStr s \<longrightarrow> CHR ''/'' \<in> set s \<longrightarrow> sublist ''/data/'' s)"
proof -
  from parseAndNormalize_InrD [OF assms(2)] assms(1)
  have g: "groupSecrets (vaultPath cfg)
             (js_coalesce (vaultField vs_triggerRedeploy config) (JBool False))
             (secrets config) [] = Inr (secretsByPath cfg)"
    by auto
  from assms(3) have "k \<in> fst ` set (secretsByPath cfg)" by force
  from groupSecrets_keys [OF g this] obtain secret m where
    secret: "secret \<in> set (secrets config)" and
    n: "normalizeSecret (vaultPath cfg)
          (js_coalesce (vaultField vs_triggerRedeploy config) (JBool False)) secret = Inr (k, m)"
    by auto
  let ?p = "if truthy (sd_path secret) then sd_path secret else vaultPath cfg"
  from normalizeSecret_path [OF n] have e: "ensureKvV2 ?p = Inr k" .
  have origin: "(\<exists>s. ?p = JStr s
                   \<and> k = JStr (if sublist ''/data/'' s \<or> CHR ''/'' \<notin> set s then s
                               else takeWhile (\<lambda>x. x \<noteq> CHR ''/'') s @ ''/data/''
                                      @ tl (dropWhile (\<lambda>x. x \<noteq> CHR ''/'') s)))
               \<or> (\<exists>xs. ?p = JArr xs \<and> JStr ''/data/'' \<in> set xs \<and> k = ?p)"
  proof (cases ?p)
    case (JStr s)
    with e have "ensureKvV2 (JStr s) = Inr k" by simp
    then have "k = JStr (if sublist ''/data/'' s \<or> CHR ''/'' \<notin> set s then s
                         else takeWhile (\<lambda>x. x \<noteq> CHR ''/'') s @ ''/data/''
                                @ tl (dropWhile (\<lambda>x. x \<noteq> CHR ''/'') s))"
      by (simp only: ensureKvV2_string sum.inject)
    with JStr show ?thesis by blast
  next
    case (JArr xs)
    with e have "JStr ''/data/'' \<in> set xs \<and> k = JArr xs" by (auto split: if_splits)
    with JArr show ?thesis by simp
  qed (use e in simp_all)
  from ensureKvV2_shape [OF e]
  have shape: "\<forall>s. k = JStr s \<longrightarrow> CHR ''/'' \<in> set s \<longrightarrow> sublist ''/data/'' s"
    by auto
  from secret origin shape show ?thesis by blast
qed

text \<open>The manifest with the base path \<^verbatim>\<open>kv/app\<close>: its one key is \<^verbatim>\<open>kv/data/app\<close>.\<close>

theorem secretsByPath_keys_kv2_witness:
  "parseAndNormalizeSecretsFile (loads manifest_kv_app) ''manifest'' ''secret/data''
     = Inr config_kv_app
   \<and> secretsByPath config_kv_app \<noteq> []
   \<and> fst (hd (secretsByPath config_kv_app)) = JStr ''kv/data/app''
   \<and> sublist ''/data/'' ''kv/data/app''"
proof -
  let ?ms = "snd (hd (secretsByPath config_kv_app))"
  have h2: "parseAndNormalizeSecretsFile (loads manifest_kv_app) ''manifest'' ''secret/data''
              = Inr config_kv_app"
    by code_simp
  then obtain config where h1: "parseSecretsFile (loads manifest_kv_app) ''manifest'' = Inr config"
    using parseAndNormalize_InrD by blast
  have h3: "(JStr ''kv/data/app'', ?ms) \<in> set (secretsByPath config_kv_app)"
    by (simp add: config_kv_app_def)
  have "CHR ''/'' \<in> set ''kv/data/app''" by simp
  with secretsByPath_keys_kv2 [OF h1 h2 h3] have "sublist ''/data/'' ''kv/data/app''" by blast
  with h2 show ?thesis by (simp add: config_kv_app_def)
qed

end
